theory Spec2Isabelle
  imports Complex_Main
begin

section \<open>Digital Wellbeing Tracker: the session ledger of digital_wellbeing_app.py\<close>

text \<open>
  The script keeps one pandas DataFrame (the ledger) in \<^verbatim>\<open>st.session_state.sessions\<close> and
  recomputes every view on each run. The embedding has three layers:
  \<^item> text and time: the timestamp text \<^verbatim>\<open>%Y-%m-%d %H:%M:%S\<close>, Python's datetime ordinal
    arithmetic, and \<^verbatim>\<open>round(x, 2)\<close>;
  \<^item> the fragment of pandas the script uses: frames of cells, \<^verbatim>\<open>pd.concat\<close>, column
    assignment, boolean masks, \<^verbatim>\<open>sum\<close>, \<^verbatim>\<open>groupby\<close>, \<^verbatim>\<open>to_csv\<close> and
    \<^verbatim>\<open>read_csv\<close>;
  \<^item> the functions and button handlers of the script, with the session state passed
    explicitly and every raise a value of the type \<open>error\<close>.
  Floats are modelled by the real numbers they denote: sums are exact.
\<close>

subsection \<open>Digits and timestamp text\<close>

definition is_digit :: "char \<Rightarrow> bool" where
  "is_digit c = (48 \<le> (of_char c :: nat) \<and> (of_char c :: nat) \<le> 57)"

definition digit_val :: "char \<Rightarrow> nat" where
  "digit_val c = of_char c - 48"

definition digit_char :: "nat \<Rightarrow> char" where
  "digit_char n = ''0123456789'' ! (n mod 10)"

text \<open>The value of a non-empty run of decimal digits.\<close>

definition nat_of_digits :: "string \<Rightarrow> nat option" where
  "nat_of_digits s =
     (if s \<noteq> [] \<and> list_all is_digit s
      then Some (foldl (\<lambda>a c. 10 * a + digit_val c) 0 s) else None)"

text \<open>Python's \<^verbatim>\<open>datetime\<close>: the fields of a naive time stamp.\<close>

record datetime =
  year :: nat
  month :: nat
  day :: nat
  hour :: nat
  minute :: nat
  second :: nat
  microsecond :: nat

text \<open>The calendar of Python's datetime module (\<^verbatim>\<open>_is_leap\<close>, \<^verbatim>\<open>_days_in_month\<close>,
  \<^verbatim>\<open>_days_before_year\<close>, \<^verbatim>\<open>_days_before_month\<close>, \<^verbatim>\<open>_ymd2ord\<close>).\<close>

definition is_leap :: "nat \<Rightarrow> bool" where
  "is_leap y = (y mod 4 = 0 \<and> (y mod 100 \<noteq> 0 \<or> y mod 400 = 0))"

definition days_in_month :: "nat \<Rightarrow> nat \<Rightarrow> nat" where
  "days_in_month y m =
     (if m = 2 then (if is_leap y then 29 else 28)
      else if m = 4 \<or> m = 6 \<or> m = 9 \<or> m = 11 then 30 else 31)"

definition days_before_year :: "nat \<Rightarrow> nat" where
  "days_before_year y = (y - 1) * 365 + (y - 1) div 4 - (y - 1) div 100 + (y - 1) div 400"

definition days_before_month :: "nat \<Rightarrow> nat \<Rightarrow> nat" where
  "days_before_month y m =
     sum_list (take (m - 1) [31, 28, 31, 30, 31, 30, 31, 31, 30, 31, 30, 31]) +
     (if 2 < m \<and> is_leap y then 1 else 0)"

definition ymd2ord :: "nat \<Rightarrow> nat \<Rightarrow> nat \<Rightarrow> nat" where
  "ymd2ord y m d = days_before_year y + days_before_month y m + d"

text \<open>\<^verbatim>\<open>.date()\<close> of a time stamp, as the ordinal of its calendar day (dates compare as
  their ordinals do), and the seconds since the start of year 1.\<close>

definition date_of :: "datetime \<Rightarrow> nat" where
  "date_of t = ymd2ord (year t) (month t) (day t)"

definition to_seconds :: "datetime \<Rightarrow> int" where
  "to_seconds t = int (date_of t) * 86400 + int (hour t) * 3600 + int (minute t) * 60 + int (second t)"

text \<open>Comparison of two datetime objects: lexicographic on the fields, as \<^verbatim>\<open>datetime._cmp\<close>.\<close>

definition dt_fields :: "datetime \<Rightarrow> nat list" where
  "dt_fields t = [year t, month t, day t, hour t, minute t, second t, microsecond t]"

fun lex_le :: "nat list \<Rightarrow> nat list \<Rightarrow> bool" where
  "lex_le [] ys = True"
| "lex_le (x # xs) [] = False"
| "lex_le (x # xs) (y # ys) = (x < y \<or> (x = y \<and> lex_le xs ys))"

definition dt_le :: "datetime \<Rightarrow> datetime \<Rightarrow> bool" where
  "dt_le a b = lex_le (dt_fields a) (dt_fields b)"

text \<open>Zero-padded decimal text of a number, \<open>w\<close> digits wide (the low \<open>w\<close> digits).\<close>

fun pad_digits :: "nat \<Rightarrow> nat \<Rightarrow> string" where
  "pad_digits 0 n = []"
| "pad_digits (Suc w) n = pad_digits w (n div 10) @ [digit_char n]"

text \<open>\<^verbatim>\<open>t.strftime("%Y-%m-%d %H:%M:%S")\<close>: the microseconds are dropped.\<close>

definition strftime :: "datetime \<Rightarrow> string" where
  "strftime t =
     pad_digits 4 (year t) @ ''-'' @ pad_digits 2 (month t) @ ''-'' @ pad_digits 2 (day t) @ '' '' @
     pad_digits 2 (hour t) @ '':'' @ pad_digits 2 (minute t) @ '':'' @ pad_digits 2 (second t)"

text \<open>\<^verbatim>\<open>pd.to_datetime\<close> on one text, for the format the handlers write. Any other text is
  taken as unparseable (pandas accepts further formats; the script never writes them).\<close>

definition parse_datetime :: "string \<Rightarrow> datetime option" where
  "parse_datetime s =
     (if length s = 19 \<and> take 1 (drop 4 s) = ''-'' \<and> take 1 (drop 7 s) = ''-'' \<and>
         take 1 (drop 10 s) = '' '' \<and> take 1 (drop 13 s) = '':'' \<and> take 1 (drop 16 s) = '':''
      then
        (case (nat_of_digits (take 4 s), nat_of_digits (take 2 (drop 5 s)),
               nat_of_digits (take 2 (drop 8 s)), nat_of_digits (take 2 (drop 11 s)),
               nat_of_digits (take 2 (drop 14 s)), nat_of_digits (take 2 (drop 17 s))) of
           (Some y, Some mo, Some d, Some h, Some mi, Some sc) \<Rightarrow>
             (if 1 \<le> y \<and> 1 \<le> mo \<and> mo \<le> 12 \<and> 1 \<le> d \<and> d \<le> days_in_month y mo \<and>
                 h < 24 \<and> mi < 60 \<and> sc < 60
              then Some \<lparr>year = y, month = mo, day = d, hour = h, minute = mi, second = sc,
                         microsecond = 0\<rparr>
              else None)
         | _ \<Rightarrow> None)
      else None)"

subsection \<open>Errors, cells and frames\<close>

datatype error = ValueError | TypeError | ParserError | EmptyDataError

text \<open>A cell of a DataFrame. \<open>NaN\<close> is the missing value of any column (NaN, None, NaT);
  \<open>Num\<close> is a float, as the number it denotes; \<open>Stamp\<close> is a pandas Timestamp.\<close>

datatype cell = NaN | Str string | Num real | Bool bool | Stamp datetime

record frame =
  columns :: "string list"
  rows :: "cell list list"

definition schema :: "string list" where
  "schema = [''id'', ''start'', ''end'', ''app'', ''category'', ''notes'', ''duration_min'']"

text \<open>\<^verbatim>\<open>pd.DataFrame(columns=[...])\<close>\<close>

definition empty_frame :: frame where
  "empty_frame = \<lparr>columns = schema, rows = []\<rparr>"

text \<open>\<^verbatim>\<open>df.empty\<close>: some axis has length 0.\<close>

definition df_empty :: "frame \<Rightarrow> bool" where
  "df_empty df = (columns df = [] \<or> rows df = [])"

text \<open>The cell of a row under a column name; a row that has no such column holds the
  missing value there.\<close>

definition cell_at :: "string list \<Rightarrow> cell list \<Rightarrow> string \<Rightarrow> cell" where
  "cell_at cols r c = (case map_of (zip cols r) c of Some v \<Rightarrow> v | None \<Rightarrow> NaN)"

text \<open>\<^verbatim>\<open>df[c]\<close>\<close>

definition column :: "frame \<Rightarrow> string \<Rightarrow> cell list" where
  "column df c = map (\<lambda>r. cell_at (columns df) r c) (rows df)"

text \<open>\<^verbatim>\<open>df[c] = vals\<close>: an existing column is overwritten, a new one is appended on
  the right; the other cells of a row stay under their columns.\<close>

definition set_cell :: "string list \<Rightarrow> string \<Rightarrow> cell list \<Rightarrow> cell \<Rightarrow> cell list" where
  "set_cell cols c r v =
     (if c \<in> set cols then map (\<lambda>k. if k = c then v else cell_at cols r k) cols
      else map (cell_at cols r) cols @ [v])"

definition set_column :: "frame \<Rightarrow> string \<Rightarrow> cell list \<Rightarrow> frame" where
  "set_column df c vals =
     \<lparr>columns = (if c \<in> set (columns df) then columns df else columns df @ [c]),
      rows = map (\<lambda>(r, v). set_cell (columns df) c r v) (zip (rows df) vals)\<rparr>"

text \<open>\<^verbatim>\<open>pd.concat([a, b], ignore_index=True)\<close>: the columns of \<open>a\<close>, then the new ones of
  \<open>b\<close>; a row holds the missing value under a column its frame did not have.\<close>

definition concat_frames :: "frame \<Rightarrow> frame \<Rightarrow> frame" where
  "concat_frames a b =
     (let cols = columns a @ filter (\<lambda>c. c \<notin> set (columns a)) (columns b)
      in \<lparr>columns = cols,
          rows = map (\<lambda>r. map (cell_at (columns a) r) cols) (rows a) @
                 map (\<lambda>r. map (cell_at (columns b) r) cols) (rows b)\<rparr>)"

subsection \<open>Session state and the helper functions\<close>

text \<open>\<^verbatim>\<open>st.session_state\<close>: \<open>None\<close> is a key that is not set.\<close>

record session_state =
  sessions :: "frame option"
  daily_limit :: "int option"

datatype message = Error_msg string | Success_msg string | Warning_msg string | Info_msg string

text \<open>\<^verbatim>\<open>round(x, 2)\<close>: to the nearest hundredth, a tie to the even one.\<close>

definition py_round2 :: "real \<Rightarrow> real" where
  "py_round2 x =
     (let y = x * 100; f = \<lfloor>y\<rfloor>; d = y - of_int f
      in of_int (if d < 1 / 2 then f else if 1 / 2 < d then f + 1
                 else if even f then f else f + 1) / 100)"

text \<open>\<^verbatim>\<open>duration_minutes(start, end)\<close>; an unparseable text raises.\<close>

definition duration_minutes :: "string \<Rightarrow> string \<Rightarrow> error + real" where
  "duration_minutes start end_s =
     (case parse_datetime end_s of
        None \<Rightarrow> Inl ValueError
      | Some e \<Rightarrow>
          (case parse_datetime start of
             None \<Rightarrow> Inl ValueError
           | Some s \<Rightarrow> Inr (of_int (to_seconds e - to_seconds s) / 60)))"

text \<open>\<^verbatim>\<open>load_sessions()\<close> sets the key on first use and returns the stored frame itself.\<close>

definition load_sessions :: "session_state \<Rightarrow> frame \<times> session_state" where
  "load_sessions st =
     (case sessions st of
        None \<Rightarrow> (empty_frame, st\<lparr>sessions := Some empty_frame\<rparr>)
      | Some df \<Rightarrow> (df, st))"

definition save_sessions :: "frame \<Rightarrow> session_state \<Rightarrow> session_state" where
  "save_sessions df st = st\<lparr>sessions := Some df\<rparr>"

text \<open>\<^verbatim>\<open>add_session(start, end, app, category, notes)\<close>. The first argument \<open>sid\<close> is the
  text drawn by \<^verbatim>\<open>str(uuid.uuid4())\<close>.\<close>

definition new_row :: "string \<Rightarrow> string \<Rightarrow> string \<Rightarrow> string \<Rightarrow> string \<Rightarrow> string \<Rightarrow> real \<Rightarrow> frame" where
  "new_row sid start end_s app category notes dur =
     \<lparr>columns = schema,
      rows = [[Str sid, Str start, Str end_s, Str app, Str category, Str notes, Num dur]]\<rparr>"

definition add_session ::
  "string \<Rightarrow> string \<Rightarrow> string \<Rightarrow> string \<Rightarrow> string \<Rightarrow> string \<Rightarrow> session_state \<Rightarrow> error + session_state" where
  "add_session sid start end_s app category notes st =
     (let (df, st1) = load_sessions st in
      case duration_minutes start end_s of
        Inl e \<Rightarrow> Inl e
      | Inr m \<Rightarrow>
          Inr (save_sessions
                 (concat_frames df (new_row sid start end_s app category notes (py_round2 m))) st1))"

text \<open>The handler of the button "Add Session" (lines 61-68).\<close>

definition add_session_button ::
  "string \<Rightarrow> datetime \<Rightarrow> datetime \<Rightarrow> string \<Rightarrow> string \<Rightarrow> string \<Rightarrow> session_state \<Rightarrow>
     error + (session_state \<times> message)" where
  "add_session_button sid start_time end_time app_name category notes st =
     (if dt_le end_time start_time
      then Inr (st, Error_msg ''End time must be after start time.'')
      else
        (case add_session sid (strftime start_time) (strftime end_time) app_name category notes st of
           Inl e \<Rightarrow> Inl e
         | Inr st' \<Rightarrow> Inr (st', Success_msg ''Session added successfully!'')))"

text \<open>The ledger as the handlers read it: the rows of the stored frame.\<close>

definition ledger :: "session_state \<Rightarrow> cell list list" where
  "ledger st = (case sessions st of None \<Rightarrow> [] | Some df \<Rightarrow> rows df)"

definition ledger_columns :: "session_state \<Rightarrow> string list" where
  "ledger_columns st = (case sessions st of None \<Rightarrow> schema | Some df \<Rightarrow> columns df)"

subsection \<open>The pandas operations of the views\<close>

text \<open>\<^verbatim>\<open>pd.to_datetime\<close> on a column: a missing value stays missing (NaT), a text is parsed,
  and a text that does not parse raises for the whole column. Numbers and booleans are not
  written by the script under a time column; the model takes them as a raise.\<close>

definition to_datetime_cell :: "cell \<Rightarrow> error + cell" where
  "to_datetime_cell c =
     (case c of
        NaN \<Rightarrow> Inr NaN
      | Str s \<Rightarrow> (case parse_datetime s of None \<Rightarrow> Inl ValueError | Some t \<Rightarrow> Inr (Stamp t))
      | Stamp t \<Rightarrow> Inr (Stamp t)
      | Num x \<Rightarrow> Inl TypeError
      | Bool b \<Rightarrow> Inl TypeError)"

fun to_datetime :: "cell list \<Rightarrow> error + cell list" where
  "to_datetime [] = Inr []"
| "to_datetime (c # cs) =
     (case to_datetime_cell c of
        Inl e \<Rightarrow> Inl e
      | Inr v \<Rightarrow> (case to_datetime cs of Inl e \<Rightarrow> Inl e | Inr vs \<Rightarrow> Inr (v # vs)))"

text \<open>\<^verbatim>\<open>series.dt.date\<close> compared with a date: a missing value compares false. A date is
  kept as its ordinal.\<close>

definition cell_date :: "cell \<Rightarrow> nat option" where
  "cell_date c = (case c of Stamp t \<Rightarrow> Some (date_of t) | _ \<Rightarrow> None)"

text \<open>\<^verbatim>\<open>series.sum()\<close>: missing values are skipped, a boolean counts as 0 or 1, and a text
  or a time stamp under the summed column raises.\<close>

fun sum_cells :: "cell list \<Rightarrow> error + real" where
  "sum_cells [] = Inr 0"
| "sum_cells (c # cs) =
     (case sum_cells cs of
        Inl e \<Rightarrow> Inl e
      | Inr t \<Rightarrow>
          (case c of
             NaN \<Rightarrow> Inr t
           | Num x \<Rightarrow> Inr (x + t)
           | Bool b \<Rightarrow> Inr (of_bool b + t)
           | Str s \<Rightarrow> Inl TypeError
           | Stamp d \<Rightarrow> Inl TypeError))"

text \<open>\<^verbatim>\<open>df.loc[mask]\<close>: the rows whose mask entry is true.\<close>

definition loc_rows :: "bool list \<Rightarrow> 'a list \<Rightarrow> 'a list" where
  "loc_rows sel xs = map snd (filter fst (zip sel xs))"

text \<open>\<^verbatim>\<open>str.strip()\<close>; the characters are code points below 256, of which these are white
  space for Python: 9 to 13, 28 to 32, 133 and 160.\<close>

definition is_space :: "char \<Rightarrow> bool" where
  "is_space c = (let n = (of_char c :: nat) in (9 \<le> n \<and> n \<le> 13) \<or> (28 \<le> n \<and> n \<le> 32) \<or> n = 133 \<or> n = 160)"

definition py_strip :: "string \<Rightarrow> string" where
  "py_strip s = rev (dropWhile is_space (rev (dropWhile is_space s)))"

text \<open>\<^verbatim>\<open>series != text\<close>: a cell that is not a text differs from every text.\<close>

definition cell_ne :: "cell \<Rightarrow> string \<Rightarrow> bool" where
  "cell_ne c x = (case c of Str s \<Rightarrow> s \<noteq> x | _ \<Rightarrow> True)"

subsection \<open>Daily limit alert (lines 178-196) and the sessions table (lines 198-215)\<close>

text \<open>The two branches of lines 193-196, on today's total and the limit.\<close>

definition limit_alert :: "real \<Rightarrow> int \<Rightarrow> message option" where
  "limit_alert today_total dlimit =
     (if of_int dlimit \<le> today_total then Some (Error_msg ''You have exceeded your daily limit!'')
      else if 8 / 10 * of_int dlimit \<le> today_total
        then Some (Warning_msg ''You are close to your daily limit.'')
      else None)"

text \<open>The block "Daily Limit Alert". \<open>today\<close> is \<^verbatim>\<open>datetime.now().date()\<close> and \<open>dlimit\<close> the value
  of the number input, which is stored. The result holds the metric "Today's Usage" (absent
  for an empty ledger) and the alert. The column \<^verbatim>\<open>start_dt\<close> is written into the stored
  frame, which \<open>load_sessions\<close> returned itself.\<close>

definition daily_limit_alert ::
  "nat \<Rightarrow> int \<Rightarrow> session_state \<Rightarrow> error + (session_state \<times> real option \<times> message option)" where
  "daily_limit_alert today dlimit st =
     (let (df, st1) = load_sessions (st\<lparr>daily_limit := Some dlimit\<rparr>) in
      if df_empty df then Inr (st1, None, None)
      else
        (case to_datetime (column df ''start'') of
           Inl e \<Rightarrow> Inl e
         | Inr start_dt \<Rightarrow>
             (let df' = set_column df ''start_dt'' start_dt;
                  st2 = st1\<lparr>sessions := Some df'\<rparr>;
                  sel = map (\<lambda>c. cell_date c = Some today) (column df' ''start_dt'')
              in case sum_cells (loc_rows sel (column df' ''duration_min'')) of
                   Inl e \<Rightarrow> Inl e
                 | Inr today_total \<Rightarrow> Inr (st2, Some today_total, limit_alert today_total dlimit))))"

text \<open>The handler of the button "Delete Session"; the button is drawn for a non-empty
  ledger only.\<close>

definition delete_session_button :: "string \<Rightarrow> session_state \<Rightarrow> session_state \<times> message" where
  "delete_session_button delete_id st =
     (let (df, st1) = load_sessions st in
      if df_empty df then (st1, Info_msg ''No sessions available.'')
      else if py_strip delete_id \<noteq> []
        then (save_sessions
                (df\<lparr>rows := loc_rows (map (\<lambda>c. cell_ne c (py_strip delete_id)) (column df ''id''))
                               (rows df)\<rparr>) st1,
              Success_msg ''Session deleted.'')
      else (st1, Warning_msg ''Please enter a valid session ID.''))"

subsection \<open>Today's total, as the monitor's description states it\<close>

text \<open>A record starts on a day when its start text reads as a time stamp of that calendar
  day; its minutes are the number under \<^verbatim>\<open>duration_min\<close> (nothing for a missing value).
  The end of the record plays no part.\<close>

definition starts_on :: "nat \<Rightarrow> cell \<Rightarrow> bool" where
  "starts_on today c =
     (case c of
        Str s \<Rightarrow> (case parse_datetime s of Some t \<Rightarrow> date_of t = today | None \<Rightarrow> False)
      | Stamp t \<Rightarrow> date_of t = today
      | _ \<Rightarrow> False)"

definition duration_value :: "cell \<Rightarrow> real" where
  "duration_value c = (case c of Num x \<Rightarrow> x | Bool b \<Rightarrow> of_bool b | _ \<Rightarrow> 0)"

definition spec_today_total :: "nat \<Rightarrow> frame \<Rightarrow> real" where
  "spec_today_total today df =
     sum_list (map (\<lambda>r. duration_value (cell_at (columns df) r ''duration_min''))
       (filter (\<lambda>r. starts_on today (cell_at (columns df) r ''start'')) (rows df)))"

text \<open>A frame the views can read: every start is missing or a timestamp text or a time
  stamp, and no duration is a text or a time stamp.\<close>

definition readable_start :: "cell \<Rightarrow> bool" where
  "readable_start c =
     (case c of NaN \<Rightarrow> True | Str s \<Rightarrow> parse_datetime s \<noteq> None | Stamp t \<Rightarrow> True | _ \<Rightarrow> False)"

definition summable :: "cell \<Rightarrow> bool" where
  "summable c = (case c of Str s \<Rightarrow> False | Stamp t \<Rightarrow> False | _ \<Rightarrow> True)"

subsection \<open>Example ledgers\<close>

text \<open>The sessions of the worked example of the daily limit: 25, 60, 60, 60 and 40 minutes on
  2024-01-01 (the day of ordinal 738886); \<open>example_ledger n\<close> holds the first \<open>n\<close> of them.\<close>

definition example_rows :: "cell list list" where
  "example_rows =
     [[Str ''u1'', Str ''2024-01-01 09:00:00'', Str ''2024-01-01 09:25:00'', Str ''browser'',
       Str ''Social'', Str '''', Num 25],
      [Str ''u2'', Str ''2024-01-01 10:00:00'', Str ''2024-01-01 11:00:00'', Str ''editor'',
       Str ''Study'', Str '''', Num 60],
      [Str ''u3'', Str ''2024-01-01 12:00:00'', Str ''2024-01-01 13:00:00'', Str ''editor'',
       Str ''Study'', Str '''', Num 60],
      [Str ''u4'', Str ''2024-01-01 14:00:00'', Str ''2024-01-01 15:00:00'', Str ''browser'',
       Str ''Social'', Str '''', Num 60],
      [Str ''u5'', Str ''2024-01-01 16:00:00'', Str ''2024-01-01 16:40:00'', Str ''video'',
       Str ''Entertainment'', Str '''', Num 40]]"

definition example_ledger :: "nat \<Rightarrow> session_state" where
  "example_ledger n =
     \<lparr>sessions = Some \<lparr>columns = schema, rows = take n example_rows\<rparr>, daily_limit = None\<rparr>"

text \<open>Three sessions around midnight: one within 2024-01-01, one that starts on it and ends
  on the next day, and one that starts on the day before and ends on it.\<close>

definition midnight_frame :: frame where
  "midnight_frame =
     \<lparr>columns = schema,
      rows =
        [[Str ''u1'', Str ''2024-01-01 09:00:00'', Str ''2024-01-01 09:25:00'', Str ''browser'',
          Str ''Social'', Str '''', Num 25],
         [Str ''u2'', Str ''2024-01-01 23:30:00'', Str ''2024-01-02 00:30:00'', Str ''browser'',
          Str ''Social'', Str '''', Num 60],
         [Str ''u3'', Str ''2023-12-31 23:30:00'', Str ''2024-01-01 00:30:00'', Str ''browser'',
          Str ''Social'', Str '''', Num 60]]\<rparr>"

subsection \<open>CSV: \<^verbatim>\<open>to_csv\<close> and \<^verbatim>\<open>read_csv\<close>\<close>

text \<open>A CSV file is kept after tokenisation, as the grid of its fields with the header line
  first; quoting and the UTF-8 encoding wrap this grid and are not modelled.\<close>

type_synonym csv = "string list list"

text \<open>Decimal text of a natural number.\<close>

function show_nat :: "nat \<Rightarrow> string" where
  "show_nat n = (if n < 10 then [digit_char n] else show_nat (n div 10) @ [digit_char n])"
  by pat_completeness auto
termination
  by (relation "measure id") auto

definition digits_value :: "string \<Rightarrow> nat" where
  "digits_value s = foldl (\<lambda>a c. 10 * a + digit_val c) 0 s"

text \<open>The number of decimal places a number needs, searched up to a bound.\<close>

fun frac_digits :: "nat \<Rightarrow> real \<Rightarrow> nat" where
  "frac_digits 0 x = 0"
| "frac_digits (Suc n) x = (if x = of_int \<lfloor>x\<rfloor> then 0 else Suc (frac_digits n (x * 10)))"

text \<open>\<^verbatim>\<open>repr\<close> of a float, as \<^verbatim>\<open>to_csv\<close> writes it: the shortest decimal text, with at least
  one decimal place. (The exponent form of very large and very small floats is outside the
  model.)\<close>

definition repr_float :: "real \<Rightarrow> string" where
  "repr_float x =
     (let a = \<bar>x\<bar>; k = max 1 (frac_digits 17 a); n = nat \<lfloor>a * 10 ^ k\<rfloor>
      in (if x < 0 then ''-'' else '''') @ show_nat (n div 10 ^ k) @ ''.'' @ pad_digits k n)"

text \<open>The number a text denotes for \<^verbatim>\<open>read_csv\<close>: blanks around it, a sign, digits with an
  optional fraction, an optional exponent. (The texts of infinity are outside the model.)\<close>

definition is_blank :: "char \<Rightarrow> bool" where
  "is_blank c = (let n = (of_char c :: nat) in n = 32 \<or> (9 \<le> n \<and> n \<le> 13))"

definition split_sign :: "string \<Rightarrow> bool \<times> string" where
  "split_sign s =
     (case s of
        [] \<Rightarrow> (False, [])
      | c # t \<Rightarrow> if c = CHR ''-'' then (True, t) else if c = CHR ''+'' then (False, t) else (False, s))"

definition parse_exponent :: "string \<Rightarrow> (int \<times> string) option" where
  "parse_exponent s =
     (case s of
        [] \<Rightarrow> Some (0, [])
      | c # t \<Rightarrow>
          if c = CHR ''e'' \<or> c = CHR ''E''
          then (let (neg, u) = split_sign t; ds = takeWhile is_digit u
                in if ds = [] then None
                   else Some (if neg then - int (digits_value ds) else int (digits_value ds),
                              dropWhile is_digit u))
          else Some (0, s))"

definition parse_number :: "string \<Rightarrow> real option" where
  "parse_number s =
     (let (neg, u) = split_sign (dropWhile is_blank s);
          ip = takeWhile is_digit u;
          u1 = dropWhile is_digit u;
          (fp, u2) = (case u1 of
                        [] \<Rightarrow> ([], [])
                      | c # r \<Rightarrow> if c = CHR ''.'' then (takeWhile is_digit r, dropWhile is_digit r)
                                 else ([], u1))
      in if ip = [] \<and> fp = [] then None
         else
           (case parse_exponent u2 of
              None \<Rightarrow> None
            | Some (e, u3) \<Rightarrow>
                if dropWhile is_blank u3 \<noteq> [] then None
                else Some ((if neg then - 1 else 1) *
                           (of_nat (digits_value ip) + of_nat (digits_value fp) / 10 ^ length fp) *
                           (if 0 \<le> e then 10 ^ nat e else 1 / 10 ^ nat (- e)))))"

text \<open>The texts \<^verbatim>\<open>read_csv\<close> takes for a missing value, and for a boolean.\<close>

definition na_values :: "string list" where
  "na_values =
     ['''', ''#N/A'', ''#N/A N/A'', ''#NA'', ''-1.#IND'', ''-1.#QNAN'', ''-NaN'', ''-nan'',
      ''1.#IND'', ''1.#QNAN'', ''<NA>'', ''N/A'', ''NA'', ''NULL'', ''NaN'', ''None'', ''n/a'',
      ''nan'', ''null'']"

definition is_na :: "string \<Rightarrow> bool" where
  "is_na s = (s \<in> set na_values)"

definition is_true_text :: "string \<Rightarrow> bool" where
  "is_true_text s = (s \<in> set [''True'', ''TRUE'', ''true''])"

definition is_bool_text :: "string \<Rightarrow> bool" where
  "is_bool_text s = (is_true_text s \<or> s \<in> set [''False'', ''FALSE'', ''false''])"

text \<open>The type \<^verbatim>\<open>read_csv\<close> infers for a column from its fields that are not missing:
  numbers if all are numbers, else booleans if all are booleans, else text.\<close>

datatype kind = KNum | KBool | KStr

definition infer_kind :: "string list \<Rightarrow> kind" where
  "infer_kind fs =
     (let nn = filter (\<lambda>s. \<not> is_na s) fs
      in if list_all (\<lambda>s. parse_number s \<noteq> None) nn then KNum
         else if list_all is_bool_text nn then KBool
         else KStr)"

definition convert :: "kind \<Rightarrow> string \<Rightarrow> cell" where
  "convert k s =
     (if is_na s then NaN
      else case k of
             KNum \<Rightarrow> (case parse_number s of Some x \<Rightarrow> Num x | None \<Rightarrow> NaN)
           | KBool \<Rightarrow> Bool (is_true_text s)
           | KStr \<Rightarrow> Str s)"

text \<open>The first field of a line and the rest; a line that is too short reads as empty
  fields.\<close>

definition first_field :: "string list \<Rightarrow> string" where
  "first_field r = (case r of [] \<Rightarrow> '''' | x # xs \<Rightarrow> x)"

fun col_kinds :: "nat \<Rightarrow> string list list \<Rightarrow> kind list" where
  "col_kinds 0 body = []"
| "col_kinds (Suc n) body = infer_kind (map first_field body) # col_kinds n (map tl body)"

fun convert_row :: "kind list \<Rightarrow> string list \<Rightarrow> cell list" where
  "convert_row [] r = []"
| "convert_row (k # ks) r = convert k (first_field r) # convert_row ks (tl r)"

text \<open>\<^verbatim>\<open>pd.read_csv(file)\<close>: a file without a header line raises. The width of the table is
  the number of header names, or the number of fields of the first data line when that line
  is longer; a line with more fields than the width raises. When the first data line is
  longer than the header, the leading fields of every line are the index, which the
  \<^verbatim>\<open>ignore_index\<close> of the following \<^verbatim>\<open>pd.concat\<close> drops: the frame holds the fields under the
  header names only. The renaming of repeated header names is not modelled.\<close>

definition table_width :: "string list \<Rightarrow> string list list \<Rightarrow> nat" where
  "table_width header body =
     (case body of [] \<Rightarrow> length header | first # rest \<Rightarrow> max (length header) (length first))"

definition read_csv :: "csv \<Rightarrow> error + frame" where
  "read_csv f =
     (case f of
        [] \<Rightarrow> Inl EmptyDataError
      | header # body \<Rightarrow>
          if list_ex (\<lambda>r. table_width header body < length r) body then Inl ParserError
          else
            (let fields = map (drop (table_width header body - length header)) body
             in Inr \<lparr>columns = header,
                      rows = map (convert_row (col_kinds (length header) fields)) fields\<rparr>))"

text \<open>\<^verbatim>\<open>df.to_csv(index=False)\<close>: a missing value is the empty field; a column of time stamps
  that are all at midnight is written as dates only.\<close>

definition midnight :: "datetime \<Rightarrow> bool" where
  "midnight t = (hour t = 0 \<and> minute t = 0 \<and> second t = 0 \<and> microsecond t = 0)"

definition dates_only :: "cell list \<Rightarrow> bool" where
  "dates_only cs =
     list_all (\<lambda>v. case v of NaN \<Rightarrow> True | Stamp t \<Rightarrow> midnight t | _ \<Rightarrow> False) cs"

definition render_cell :: "bool \<Rightarrow> cell \<Rightarrow> string" where
  "render_cell donly c =
     (case c of
        NaN \<Rightarrow> ''''
      | Str s \<Rightarrow> s
      | Num x \<Rightarrow> repr_float x
      | Bool b \<Rightarrow> (if b then ''True'' else ''False'')
      | Stamp t \<Rightarrow> (if donly then take 10 (strftime t) else strftime t))"

definition to_csv :: "frame \<Rightarrow> csv" where
  "to_csv df =
     columns df #
     map (\<lambda>r. map (\<lambda>c. render_cell (dates_only (column df c)) (cell_at (columns df) r c))
                (columns df))
       (rows df)"

definition export_csv :: "frame \<Rightarrow> csv" where
  "export_csv df = to_csv df"

subsection \<open>Import and export (lines 129-147)\<close>

definition error_text :: "error \<Rightarrow> string" where
  "error_text e =
     (case e of ValueError \<Rightarrow> ''ValueError'' | TypeError \<Rightarrow> ''TypeError''
      | ParserError \<Rightarrow> ''ParserError'' | EmptyDataError \<Rightarrow> ''EmptyDataError'')"

text \<open>The block of the file uploader, for any reader in the place of \<^verbatim>\<open>pd.read_csv\<close>: the
  \<^verbatim>\<open>try\<close> reads first and stores only after the read returned. \<open>None\<close> is no uploaded file.\<close>

definition import_csv_with ::
  "(csv \<Rightarrow> error + frame) \<Rightarrow> csv option \<Rightarrow> session_state \<Rightarrow> session_state \<times> message option" where
  "import_csv_with reader uploaded st =
     (case uploaded of
        None \<Rightarrow> (st, None)
      | Some f \<Rightarrow>
          (case reader f of
             Inl e \<Rightarrow> (st, Some (Error_msg (''Import failed: '' @ error_text e)))
           | Inr imp \<Rightarrow>
               (let (df, st1) = load_sessions st
                in (save_sessions (concat_frames df imp) st1,
                    Some (Success_msg ''Data imported successfully.'')))))"

definition import_csv :: "csv option \<Rightarrow> session_state \<Rightarrow> session_state \<times> message option" where
  "import_csv = import_csv_with read_csv"

text \<open>The handler of the button "Export Sessions as CSV".\<close>

definition export_sessions_button :: "session_state \<Rightarrow> session_state \<times> (message + csv)" where
  "export_sessions_button st =
     (let (df, st1) = load_sessions st in
      if df_empty df then (st1, Inl (Warning_msg ''No data to export.''))
      else (st1, Inr (export_csv df)))"

subsection \<open>Usage analytics (lines 96-127)\<close>

definition date_ge :: "cell \<Rightarrow> nat \<Rightarrow> bool" where
  "date_ge c d = (case cell_date c of Some x \<Rightarrow> d \<le> x | None \<Rightarrow> False)"

definition date_le :: "cell \<Rightarrow> nat \<Rightarrow> bool" where
  "date_le c d = (case cell_date c of Some x \<Rightarrow> x \<le> d | None \<Rightarrow> False)"

text \<open>\<^verbatim>\<open>view.groupby(key)[col].sum()\<close>: one sum for each key of the view; a row whose key is
  missing belongs to no group. The groups are listed in the order of \<open>remdups\<close>; pandas lists
  them by ascending key.\<close>

definition group_key :: "cell \<Rightarrow> cell option" where
  "group_key c = (case c of NaN \<Rightarrow> None | _ \<Rightarrow> Some c)"

fun group_sums :: "'k list \<Rightarrow> ('k option \<times> cell) list \<Rightarrow> error + ('k \<times> real) list" where
  "group_sums [] kv = Inr []"
| "group_sums (k # ks) kv =
     (case sum_cells (map snd (filter (\<lambda>p. fst p = Some k) kv)) of
        Inl e \<Rightarrow> Inl e
      | Inr t \<Rightarrow> (case group_sums ks kv of Inl e \<Rightarrow> Inl e | Inr res \<Rightarrow> Inr ((k, t) # res)))"

definition groupby_sum :: "'k option list \<Rightarrow> cell list \<Rightarrow> error + ('k \<times> real) list" where
  "groupby_sum ks vs = group_sums (remdups (List.map_filter id ks)) (zip ks vs)"

text \<open>\<^verbatim>\<open>sort_values(ascending=False)\<close>; the order of equal sums is not fixed by pandas.\<close>

definition sort_desc :: "('k \<times> real) list \<Rightarrow> ('k \<times> real) list" where
  "sort_desc xs = sort_key (\<lambda>p. - snd p) xs"

record analytics =
  total_min :: real
  by_app :: "(cell \<times> real) list"
  by_cat :: "(cell \<times> real) list"
  by_day :: "(nat \<times> real) list"

text \<open>The block "Usage Analytics". \<open>date_range\<close> is the pair of dates of the date input. The
  columns \<^verbatim>\<open>start_dt\<close> and \<^verbatim>\<open>end_dt\<close> are written into the stored frame itself; the view is
  a frame of its own.\<close>

definition usage_analytics ::
  "nat \<times> nat \<Rightarrow> session_state \<Rightarrow> error + (session_state \<times> analytics option)" where
  "usage_analytics date_range st =
     (let (df, st1) = load_sessions st in
      if df_empty df then Inr (st1, None)
      else
        (case to_datetime (column df ''start'') of
           Inl e \<Rightarrow> Inl e
         | Inr start_dt \<Rightarrow>
             (let df1 = set_column df ''start_dt'' start_dt in
              case to_datetime (column df1 ''end'') of
                Inl e \<Rightarrow> Inl e
              | Inr end_dt \<Rightarrow>
                  (let df2 = set_column df1 ''end_dt'' end_dt;
                       st2 = st1\<lparr>sessions := Some df2\<rparr>;
                       sel = map (\<lambda>(s, e). date_ge s (fst date_range) \<and> date_le e (snd date_range))
                               (zip (column df2 ''start_dt'') (column df2 ''end_dt''));
                       view = df2\<lparr>rows := loc_rows sel (rows df2)\<rparr>
                   in case sum_cells (column view ''duration_min'') of
                        Inl e \<Rightarrow> Inl e
                      | Inr tmin \<Rightarrow>
                          (case groupby_sum (map group_key (column view ''app''))
                                  (column view ''duration_min'') of
                             Inl e \<Rightarrow> Inl e
                           | Inr a \<Rightarrow>
                               (case groupby_sum (map group_key (column view ''category''))
                                       (column view ''duration_min'') of
                                  Inl e \<Rightarrow> Inl e
                                | Inr c \<Rightarrow>
                                    (case groupby_sum (map cell_date (column view ''start_dt''))
                                            (column view ''duration_min'') of
                                       Inl e \<Rightarrow> Inl e
                                     | Inr d \<Rightarrow>
                                         Inr (st2, Some \<lparr>total_min = tmin, by_app = sort_desc a,
                                                by_cat = sort_desc c, by_day = d\<rparr>))))))))"

text \<open>The three figures that are compared: the sum of the table by activity, the sum of the
  table by category, and the total.\<close>

definition view_sums :: "nat \<times> nat \<Rightarrow> session_state \<Rightarrow> error + (real \<times> real \<times> real)" where
  "view_sums date_range st =
     (case usage_analytics date_range st of
        Inl e \<Rightarrow> Inl e
      | Inr (st', None) \<Rightarrow> Inr (0, 0, 0)
      | Inr (st', Some v) \<Rightarrow>
          Inr (sum_list (map snd (by_app v)), sum_list (map snd (by_cat v)), total_min v))"

text \<open>The records of a date range, as the description of the views states them: the start
  is on or after the first day and the end is on or before the last day.\<close>

definition text_date :: "cell \<Rightarrow> nat option" where
  "text_date c =
     (case c of
        Str s \<Rightarrow> map_option date_of (parse_datetime s)
      | Stamp t \<Rightarrow> Some (date_of t)
      | _ \<Rightarrow> None)"

definition in_range :: "nat \<times> nat \<Rightarrow> string list \<Rightarrow> cell list \<Rightarrow> bool" where
  "in_range date_range cols r =
     ((case text_date (cell_at cols r ''start'') of Some d \<Rightarrow> fst date_range \<le> d | None \<Rightarrow> False) \<and>
      (case text_date (cell_at cols r ''end'') of Some d \<Rightarrow> d \<le> snd date_range | None \<Rightarrow> False))"

definition spec_range_total :: "nat \<times> nat \<Rightarrow> frame \<Rightarrow> real" where
  "spec_range_total date_range df =
     sum_list (map (\<lambda>r. duration_value (cell_at (columns df) r ''duration_min''))
       (filter (in_range date_range (columns df)) (rows df)))"

subsection \<open>Runs of the ledger operations\<close>

text \<open>The state of a fresh process: no key is set.\<close>

definition init_state :: session_state where
  "init_state = \<lparr>sessions = None, daily_limit = None\<rparr>"

text \<open>The identifiers of the ledger, in the order of its records.\<close>

definition ids :: "session_state \<Rightarrow> cell list" where
  "ids st = column (fst (load_sessions st)) ''id''"

text \<open>One run of the script draws the analytics before the export button: the export sees
  the stored frame as the analytics block left it.\<close>

definition export_after_views :: "nat \<times> nat \<Rightarrow> session_state \<Rightarrow> error + (message + csv)" where
  "export_after_views date_range st =
     (case usage_analytics date_range st of
        Inl e \<Rightarrow> Inl e
      | Inr (st', v) \<Rightarrow> Inr (snd (export_sessions_button st')))"

text \<open>Appending records one after the other with \<open>add_session\<close>; a record is the drawn
  identifier and the five arguments.\<close>

type_synonym entry = "string \<times> string \<times> string \<times> string \<times> string \<times> string"

fun append_all :: "entry list \<Rightarrow> session_state \<Rightarrow> error + session_state" where
  "append_all [] st = Inr st"
| "append_all ((sid, start, end_s, app, category, notes) # es) st =
     (case add_session sid start end_s app category notes st of
        Inl e \<Rightarrow> Inl e
      | Inr st' \<Rightarrow> append_all es st')"

text \<open>Export of the ledger, then import of the exported file by a fresh process; the result
  is the frame the fresh process stores (\<open>None\<close> when there was nothing to export).\<close>

definition round_trip :: "session_state \<Rightarrow> frame option" where
  "round_trip st =
     (case snd (export_sessions_button st) of
        Inl m \<Rightarrow> None
      | Inr f \<Rightarrow> sessions (fst (import_csv (Some f) init_state)))"

text \<open>A text that \<^verbatim>\<open>read_csv\<close> gives back as it is: it is neither a missing value nor a
  number nor a boolean for the reader.\<close>

definition keeps_text :: "string \<Rightarrow> bool" where
  "keeps_text s = (\<not> is_na s \<and> parse_number s = None \<and> \<not> is_bool_text s)"

definition keeps_texts :: "entry \<Rightarrow> bool" where
  "keeps_texts e =
     (case e of (sid, start, end_s, app, category, notes) \<Rightarrow>
        keeps_text sid \<and> keeps_text app \<and> keeps_text category \<and> keeps_text notes)"

text \<open>The three operations on the ledger, and a run of them. An append is the handler of
  "Add Session" with the drawn identifier.\<close>

datatype op =
    Append string datetime datetime string string string
  | Delete string
  | Import csv

definition apply_op :: "op \<Rightarrow> session_state \<Rightarrow> error + session_state" where
  "apply_op x st =
     (case x of
        Append sid start_time end_time app category notes \<Rightarrow>
          (case add_session_button sid start_time end_time app category notes st of
             Inl e \<Rightarrow> Inl e
           | Inr (st', m) \<Rightarrow> Inr st')
      | Delete delete_id \<Rightarrow> Inr (fst (delete_session_button delete_id st))
      | Import f \<Rightarrow> Inr (fst (import_csv (Some f) st)))"

fun run_ops :: "op list \<Rightarrow> session_state \<Rightarrow> error + session_state" where
  "run_ops [] st = Inr st"
| "run_ops (x # xs) st = (case apply_op x st of Inl e \<Rightarrow> Inl e | Inr st' \<Rightarrow> run_ops xs st')"

text \<open>An operation brings fresh identifiers when the identifier drawn for an append is not in
  the ledger, and when the rows of an import carry identifiers that differ from each other
  and from those in the ledger.\<close>

definition fresh_op :: "op \<Rightarrow> session_state \<Rightarrow> bool" where
  "fresh_op x st =
     (case x of
        Append sid start_time end_time app category notes \<Rightarrow> Str sid \<notin> set (ids st)
      | Delete delete_id \<Rightarrow> True
      | Import f \<Rightarrow>
          (case read_csv f of
             Inl e \<Rightarrow> True
           | Inr imp \<Rightarrow> distinct (column imp ''id'') \<and>
                        list_all (\<lambda>c. c \<notin> set (ids st)) (column imp ''id'')))"

fun fresh_run :: "op list \<Rightarrow> session_state \<Rightarrow> bool" where
  "fresh_run [] st = True"
| "fresh_run (x # xs) st =
     (fresh_op x st \<and> (case apply_op x st of Inl e \<Rightarrow> True | Inr st' \<Rightarrow> fresh_run xs st'))"

subsection \<open>Example files\<close>


definition missing_app_file :: csv where
  "missing_app_file =
     [schema,
      [''u1'', ''2024-01-01 09:00:00'', ''2024-01-01 09:10:00'', '''', ''Social'', ''x'',
       ''10.0'']]"

definition exported_file :: csv where
  "exported_file =
     [schema,
      [''u1'', ''2024-01-01 09:00:00'', ''2024-01-01 09:25:00'', ''browser'', ''Social'', '''',
       ''25.0'']]"

text \<open>A file whose second data line has one field more than the header and the first data
  line have.\<close>

definition ragged_file :: csv where
  "ragged_file =
     [[''id'', ''start''],
      [''u1'', ''2024-01-01 09:00:00''],
      [''u2'', ''2024-01-01 10:00:00'', ''extra'']]"

section \<open>Properties\<close>

subsection \<open>Evaluation and frame lemmas\<close>

lemmas time_eval = parse_datetime_def nat_of_digits_def is_digit_def digit_val_def
  days_in_month_def is_leap_def to_seconds_def date_of_def ymd2ord_def days_before_year_def
  days_before_month_def

lemma py_round2_near: "\<bar>py_round2 x - x\<bar> \<le> 1 / 200"
proof -
  define y where "y = x * 100"
  define f where "f = \<lfloor>y\<rfloor>"
  define d where "d = y - of_int f"
  have d0: "0 \<le> d" and d1: "d < 1" unfolding d_def f_def by linarith+
  have x: "x = (of_int f + d) / 100" unfolding d_def y_def by simp
  have r: "py_round2 x = of_int (if d < 1 / 2 then f else if 1 / 2 < d then f + 1
                 else if even f then f else f + 1) / 100"
    unfolding py_round2_def Let_def d_def f_def y_def by simp
  have "\<bar>py_round2 x - (of_int f + d) / 100\<bar> \<le> 1 / 200"
    unfolding r using d0 d1 by (auto simp: abs_if field_simps)
  then show ?thesis by (simp only: x[symmetric])
qed

lemma cell_at_map: "cell_at cols (map f cols) c = (if c \<in> set cols then f c else NaN)"
  by (simp add: cell_at_def map_of_zip_map)

lemma cell_at_notin: "c \<notin> set cols \<Longrightarrow> cell_at cols r c = NaN"
proof -
  assume "c \<notin> set cols"
  then have "c \<notin> fst ` set (zip cols r)" by (auto dest: set_zip_leftD)
  then have "map_of (zip cols r) c = None" by (simp add: map_of_eq_None_iff)
  then show ?thesis by (simp add: cell_at_def)
qed

lemma cell_at_realign:
  "set cols \<subseteq> set cols' \<Longrightarrow> cell_at cols' (map (cell_at cols r) cols') c = cell_at cols r c"
  using cell_at_notin[of c cols r] by (cases "c \<in> set cols") (auto simp: cell_at_map)

lemma cell_at_schema_row:
  "map (cell_at schema [a, b, c, d, e, f, g]) schema = [a, b, c, d, e, f, g]"
  by (simp add: cell_at_def schema_def)

lemma concat_new_row:
  fixes df :: frame
  defines "cols \<equiv> columns df @ filter (\<lambda>c. c \<notin> set (columns df)) schema"
  shows "concat_frames df (new_row sid start end_s app category notes dur) =
     \<lparr>columns = cols,
      rows = map (\<lambda>r. map (cell_at (columns df) r) cols) (rows df) @
        [map (cell_at schema [Str sid, Str start, Str end_s, Str app, Str category, Str notes, Num dur]) cols]\<rparr>"
  by (simp add: concat_frames_def new_row_def cols_def Let_def)

lemma add_session_result:
  assumes "duration_minutes start end_s = Inr m"
  shows "add_session sid start end_s app category notes st =
     Inr (st\<lparr>sessions := Some (concat_frames (fst (load_sessions st))
              (new_row sid start end_s app category notes (py_round2 m)))\<rparr>)"
  using assms by (simp add: add_session_def load_sessions_def save_sessions_def split: option.splits)

lemma load_sessions_frame:
  "columns (fst (load_sessions st)) = ledger_columns st" "rows (fst (load_sessions st)) = ledger st"
  by (simp_all add: load_sessions_def ledger_columns_def ledger_def empty_frame_def split: option.splits)

lemma parse_0900:
  "parse_datetime ''2024-01-01 09:00:00'' =
     Some \<lparr>year = 2024, month = 1, day = 1, hour = 9, minute = 0, second = 0, microsecond = 0\<rparr>"
  by (simp add: time_eval)

lemma parse_092510:
  "parse_datetime ''2024-01-01 09:25:10'' =
     Some \<lparr>year = 2024, month = 1, day = 1, hour = 9, minute = 25, second = 10, microsecond = 0\<rparr>"
  by (simp add: time_eval)

lemma seconds_0900: "to_seconds \<lparr>year = 2024, month = 1, day = 1, hour = 9, minute = 0, second = 0,
    microsecond = 0\<rparr> = 63839782800"
  by (simp add: time_eval)

lemma seconds_092510: "to_seconds \<lparr>year = 2024, month = 1, day = 1, hour = 9, minute = 25,
    second = 10, microsecond = 0\<rparr> = 63839784310"
  by (simp add: time_eval)

subsection \<open>C1: adding a session appends one record with the rounded duration\<close>

text \<open>
  C1. For two timestamp texts that \<^verbatim>\<open>pd.to_datetime\<close> reads as \<open>s\<close> and \<open>e\<close> with \<open>e\<close> strictly
  after \<open>s\<close>, \<open>add_session\<close> returns (it does not raise), the ledger is one record longer, every
  earlier record keeps its value under every column, the new record is the last one and holds
  the given id, start, end, app, category and notes, and its \<open>duration_min\<close> is within 0.005
  (half a unit of the second decimal place) of \<open>(e - s)\<close> in minutes.
\<close>

theorem add_session_appends_duration:
  assumes "parse_datetime start = Some s" and "parse_datetime end_s = Some e"
    and "to_seconds s < to_seconds e"
  shows "\<exists>st' dur. add_session sid start end_s app category notes st = Inr st'
     \<and> length (ledger st') = Suc (length (ledger st))
     \<and> (\<forall>c. map (\<lambda>r. cell_at (ledger_columns st') r c) (butlast (ledger st')) =
              map (\<lambda>r. cell_at (ledger_columns st) r c) (ledger st))
     \<and> map (cell_at (ledger_columns st') (last (ledger st'))) schema =
          [Str sid, Str start, Str end_s, Str app, Str category, Str notes, Num dur]
     \<and> \<bar>dur - of_int (to_seconds e - to_seconds s) / 60\<bar> \<le> 1 / 200"
proof -
  define m :: real where "m = of_int (to_seconds e - to_seconds s) / 60"
  define cols where "cols = ledger_columns st @ filter (\<lambda>c. c \<notin> set (ledger_columns st)) schema"
  define row where "row = [Str sid, Str start, Str end_s, Str app, Str category, Str notes, Num (py_round2 m)]"
  define st' where "st' = st\<lparr>sessions := Some (concat_frames (fst (load_sessions st))
              (new_row sid start end_s app category notes (py_round2 m)))\<rparr>"
  have dm: "duration_minutes start end_s = Inr m"
    using assms by (simp add: duration_minutes_def m_def)
  have res: "add_session sid start end_s app category notes st = Inr st'"
    unfolding st'_def by (rule add_session_result [OF dm])
  have fr: "sessions st' = Some \<lparr>columns = cols,
      rows = map (\<lambda>r. map (cell_at (ledger_columns st) r) cols) (ledger st) @ [map (cell_at schema row) cols]\<rparr>"
    unfolding st'_def by (simp add: concat_new_row load_sessions_frame cols_def row_def)
  have lc: "ledger_columns st' = cols"
    and lr: "ledger st' = map (\<lambda>r. map (cell_at (ledger_columns st) r) cols) (ledger st) @ [map (cell_at schema row) cols]"
    using fr by (simp_all add: ledger_columns_def ledger_def)
  have sub: "set (ledger_columns st) \<subseteq> set cols" and sch: "set schema \<subseteq> set cols"
    by (auto simp: cols_def)
  have len: "length (ledger st') = Suc (length (ledger st))" by (simp add: lr)
  have old: "map (\<lambda>r. cell_at (ledger_columns st') r c) (butlast (ledger st')) =
              map (\<lambda>r. cell_at (ledger_columns st) r c) (ledger st)" for c
    by (simp add: lr lc butlast_append cell_at_realign [OF sub] comp_def)
  have "map (cell_at cols (map (cell_at schema row) cols)) schema = map (cell_at schema row) schema"
    using sch by (intro map_cong) (auto simp: cell_at_realign)
  then have new: "map (cell_at (ledger_columns st') (last (ledger st'))) schema =
      [Str sid, Str start, Str end_s, Str app, Str category, Str notes, Num (py_round2 m)]"
    by (simp add: lr lc row_def cell_at_schema_row)
  have near: "\<bar>py_round2 m - of_int (to_seconds e - to_seconds s) / 60\<bar> \<le> 1 / 200"
    using py_round2_near [of m] by (simp add: m_def)
  show ?thesis
    by (intro exI [of _ st'] exI [of _ "py_round2 m"] conjI allI res len old new near)
qed

theorem add_session_appends_duration_witness:
  "parse_datetime ''2024-01-01 09:00:00'' =
     Some \<lparr>year = 2024, month = 1, day = 1, hour = 9, minute = 0, second = 0, microsecond = 0\<rparr>
   \<and> parse_datetime ''2024-01-01 09:25:10'' =
     Some \<lparr>year = 2024, month = 1, day = 1, hour = 9, minute = 25, second = 10, microsecond = 0\<rparr>
   \<and> (63839782800 :: int) < 63839784310
   \<and> (\<exists>st' dur. add_session ''u1'' ''2024-01-01 09:00:00'' ''2024-01-01 09:25:10'' ''browser''
          ''Social'' '''' \<lparr>sessions = None, daily_limit = None\<rparr> = Inr st'
        \<and> length (ledger st') = Suc (length (ledger \<lparr>sessions = None, daily_limit = None\<rparr>))
        \<and> (\<forall>c. map (\<lambda>r. cell_at (ledger_columns st') r c) (butlast (ledger st')) =
              map (\<lambda>r. cell_at (ledger_columns \<lparr>sessions = None, daily_limit = None\<rparr>) r c)
                (ledger \<lparr>sessions = None, daily_limit = None\<rparr>))
        \<and> map (cell_at (ledger_columns st') (last (ledger st'))) schema =
            [Str ''u1'', Str ''2024-01-01 09:00:00'', Str ''2024-01-01 09:25:10'', Str ''browser'',
             Str ''Social'', Str '''', Num dur]
        \<and> \<bar>dur - of_int (63839784310 - 63839782800) / 60\<bar> \<le> 1 / 200)"
proof -
  have lt: "to_seconds \<lparr>year = 2024, month = 1, day = 1, hour = 9, minute = 0, second = 0,
      microsecond = 0\<rparr> < to_seconds \<lparr>year = 2024, month = 1, day = 1, hour = 9, minute = 25,
      second = 10, microsecond = 0\<rparr>"
    unfolding seconds_0900 seconds_092510 by simp
  note w = add_session_appends_duration [OF parse_0900 parse_092510 lt,
      of "''u1''" "''browser''" "''Social''" "''''" "\<lparr>sessions = None, daily_limit = None\<rparr>",
      unfolded seconds_0900 seconds_092510]
  show ?thesis
    by (intro conjI) (rule parse_0900, rule parse_092510, simp, rule w)
qed

subsection \<open>C2: an end that is not after the start is rejected\<close>

text \<open>
  C2. When the end time is less than or equal to the start time, the handler of "Add Session"
  does not raise, reports the validation error, and leaves the session state, and so the
  ledger and its length, as they were: no record is produced.
\<close>

theorem add_session_button_rejects:
  assumes "dt_le end_time start_time"
  shows "add_session_button sid start_time end_time app_name category notes st =
           Inr (st, Error_msg ''End time must be after start time.'')"
  using assms by (simp add: add_session_button_def)

theorem add_session_button_rejects_witness:
  "dt_le \<lparr>year = 2024, month = 1, day = 1, hour = 9, minute = 0, second = 0, microsecond = 0\<rparr>
         \<lparr>year = 2024, month = 1, day = 1, hour = 9, minute = 0, second = 0, microsecond = 7\<rparr>
   \<and> add_session_button ''u1''
         \<lparr>year = 2024, month = 1, day = 1, hour = 9, minute = 0, second = 0, microsecond = 7\<rparr>
         \<lparr>year = 2024, month = 1, day = 1, hour = 9, minute = 0, second = 0, microsecond = 0\<rparr>
         ''browser'' ''Social'' '''' \<lparr>sessions = None, daily_limit = None\<rparr> =
       Inr (\<lparr>sessions = None, daily_limit = None\<rparr>, Error_msg ''End time must be after start time.'')"
proof -
  have le: "dt_le \<lparr>year = 2024, month = 1, day = 1, hour = 9, minute = 0, second = 0, microsecond = 0\<rparr>
         \<lparr>year = 2024, month = 1, day = 1, hour = 9, minute = 0, second = 0, microsecond = 7\<rparr>"
    by (simp add: dt_le_def dt_fields_def)
  show ?thesis using le add_session_button_rejects [OF le] by simp
qed

subsection \<open>Lemmas on columns, masks and sums\<close>

lemma cell_at_append_new:
  "c \<notin> set cols \<Longrightarrow>
     cell_at (cols @ [c]) (map f cols @ [v]) k = (if k = c then v else cell_at cols (map f cols) k)"
  by (auto simp: cell_at_def map_of_zip_map split: option.splits)

lemma cell_at_set_cell:
  "cell_at (if c \<in> set cols then cols else cols @ [c]) (set_cell cols c r v) k =
     (if k = c then v else cell_at cols r k)"
proof (cases "c \<in> set cols")
  case True
  then show ?thesis using cell_at_notin [of k cols r]
    by (auto simp: set_cell_def cell_at_map)
next
  case False
  then show ?thesis using cell_at_notin [of k cols r]
    by (auto simp: set_cell_def cell_at_append_new cell_at_map)
qed

lemma column_set_column:
  assumes "length vals = length (rows df)"
  shows "column (set_column df c vals) k = (if k = c then vals else column df k)"
proof -
  have "map (\<lambda>(r, v). if k = c then v else cell_at (columns df) r k) (zip rs vs) =
        (if k = c then vs else map (\<lambda>r. cell_at (columns df) r k) rs)"
    if "length vs = length rs" for rs :: "cell list list" and vs
    using that by (induction rs vs rule: list_induct2') auto
  from this [of vals "rows df"] assms show ?thesis
    by (simp add: column_def set_column_def cell_at_set_cell comp_def case_prod_unfold)
qed

lemma to_datetime_Inr:
  "to_datetime cs = Inr vs \<Longrightarrow> list_all2 (\<lambda>c v. to_datetime_cell c = Inr v) cs vs"
  by (induction cs arbitrary: vs) (auto split: sum.splits)

lemma to_datetime_cell_date:
  "to_datetime_cell c = Inr v \<Longrightarrow> (cell_date v = Some today) = starts_on today c"
  by (auto simp: to_datetime_cell_def cell_date_def starts_on_def split: cell.splits option.splits)

lemma sum_cells_Inr: "sum_cells cs = Inr t \<Longrightarrow> t = sum_list (map duration_value cs)"
  by (induction cs arbitrary: t) (auto simp: duration_value_def split: sum.splits cell.splits)

lemma sum_cells_total: "list_all summable cs \<Longrightarrow> \<exists>t. sum_cells cs = Inr t"
  by (induction cs) (auto simp: summable_def split: cell.splits)

lemma to_datetime_total: "list_all readable_start cs \<Longrightarrow> \<exists>vs. to_datetime cs = Inr vs"
  by (induction cs) (auto simp: readable_start_def to_datetime_cell_def split: cell.splits)

lemma loc_rows_map: "loc_rows (map P xs) (map f xs) = map f (filter P xs)"
  by (induction xs) (auto simp: loc_rows_def)

lemma loc_rows_filter: "loc_rows (map P xs) xs = filter P xs"
  using loc_rows_map [of P xs id] by simp

lemma list_all2_map_eq:
  "list_all2 (\<lambda>c v. g c = Inr v) cs vs \<Longrightarrow> (\<And>c v. g c = Inr v \<Longrightarrow> P v = Q c) \<Longrightarrow>
     map P vs = map Q cs"
  by (induction rule: list_all2_induct) auto

lemma today_selection:
  assumes "to_datetime (column df ''start'') = Inr start_dt"
  shows "loc_rows (map (\<lambda>c. cell_date c = Some today)
             (column (set_column df ''start_dt'' start_dt) ''start_dt''))
           (column (set_column df ''start_dt'' start_dt) ''duration_min'') =
         map (\<lambda>r. cell_at (columns df) r ''duration_min'')
           (filter (\<lambda>r. starts_on today (cell_at (columns df) r ''start'')) (rows df))"
proof -
  have l2: "list_all2 (\<lambda>c v. to_datetime_cell c = Inr v) (column df ''start'') start_dt"
    by (rule to_datetime_Inr [OF assms])
  then have len: "length start_dt = length (rows df)"
    by (auto dest: list_all2_lengthD simp: column_def)
  have sel: "map (\<lambda>c. cell_date c = Some today) start_dt =
             map (\<lambda>r. starts_on today (cell_at (columns df) r ''start'')) (rows df)"
    using list_all2_map_eq [OF l2, of "\<lambda>c. cell_date c = Some today" "starts_on today"]
    by (simp add: to_datetime_cell_date column_def comp_def)
  show ?thesis
    by (simp add: column_set_column [OF len] sel) (simp add: column_def loc_rows_map)
qed

lemma daily_limit_alert_unfold:
  assumes "sessions st = Some df" and "\<not> df_empty df"
  shows "daily_limit_alert today dlimit st =
     (case to_datetime (column df ''start'') of
        Inl e \<Rightarrow> Inl e
      | Inr start_dt \<Rightarrow>
          (case sum_cells (map (\<lambda>r. cell_at (columns df) r ''duration_min'')
                   (filter (\<lambda>r. starts_on today (cell_at (columns df) r ''start'')) (rows df))) of
             Inl e \<Rightarrow> Inl e
           | Inr today_total \<Rightarrow>
               Inr (st\<lparr>daily_limit := Some dlimit,
                       sessions := Some (set_column df ''start_dt'' start_dt)\<rparr>,
                    Some today_total, limit_alert today_total dlimit)))"
  using assms
  by (auto simp: daily_limit_alert_def load_sessions_def Let_def today_selection split: sum.splits)


subsection \<open>C5: the three classes of the daily limit monitor\<close>



subsection \<open>C10: today's total counts the sessions that start today\<close>

text \<open>
  C10. For a non-empty ledger, whenever the monitor returns, its total for today is the sum of
  \<open>duration_min\<close> over exactly the records whose start falls on today's calendar day
  (\<open>spec_today_total\<close>, in which the end of a record plays no part); and it does return when
  every start is readable and every duration is a number or missing. In the witness a
  session from 23:30 today to 00:30 tomorrow counts with its full 60 minutes and a session from
  23:30 yesterday to 00:30 today counts nothing: the total is 25 + 60.
\<close>

theorem today_total_counts_started_today:
  assumes "sessions st = Some df" and "\<not> df_empty df"
  shows "(\<forall>st' m a. daily_limit_alert today dlimit st = Inr (st', m, a) \<longrightarrow>
            m = Some (spec_today_total today df))
       \<and> (list_all (\<lambda>r. readable_start (cell_at (columns df) r ''start'') \<and>
                        summable (cell_at (columns df) r ''duration_min'')) (rows df) \<longrightarrow>
            (\<exists>st' a. daily_limit_alert today dlimit st =
                       Inr (st', Some (spec_today_total today df), a)))"
proof (intro conjI allI impI)
  fix st' m a
  assume "daily_limit_alert today dlimit st = Inr (st', m, a)"
  then show "m = Some (spec_today_total today df)"
    unfolding daily_limit_alert_unfold [OF assms]
    by (auto simp: spec_today_total_def comp_def dest!: sum_cells_Inr split: sum.splits)
next
  assume rd: "list_all (\<lambda>r. readable_start (cell_at (columns df) r ''start'') \<and>
                        summable (cell_at (columns df) r ''duration_min'')) (rows df)"
  then have "list_all readable_start (column df ''start'')"
    by (simp add: column_def list_all_iff)
  then obtain vs where vs: "to_datetime (column df ''start'') = Inr vs"
    using to_datetime_total by blast
  have "list_all summable (map (\<lambda>r. cell_at (columns df) r ''duration_min'')
                   (filter (\<lambda>r. starts_on today (cell_at (columns df) r ''start'')) (rows df)))"
    using rd by (simp add: list_all_iff)
  then obtain t where t: "sum_cells (map (\<lambda>r. cell_at (columns df) r ''duration_min'')
                   (filter (\<lambda>r. starts_on today (cell_at (columns df) r ''start'')) (rows df))) = Inr t"
    using sum_cells_total by blast
  have "t = spec_today_total today df"
    using sum_cells_Inr [OF t] by (simp add: spec_today_total_def comp_def)
  then show "\<exists>st' a. daily_limit_alert today dlimit st =
      Inr (st', Some (spec_today_total today df), a)"
    unfolding daily_limit_alert_unfold [OF assms] by (simp add: vs t)
qed

theorem today_total_counts_started_today_witness:
  "\<not> df_empty midnight_frame
   \<and> list_all (\<lambda>r. readable_start (cell_at (columns midnight_frame) r ''start'') \<and>
                   summable (cell_at (columns midnight_frame) r ''duration_min''))
        (rows midnight_frame)
   \<and> spec_today_total 738886 midnight_frame = 25 + 60
   \<and> (\<exists>st' a. daily_limit_alert 738886 240
                 \<lparr>sessions = Some midnight_frame, daily_limit = None\<rparr> =
               Inr (st', Some (25 + 60), a))"
proof -
  have ne: "\<not> df_empty midnight_frame"
    by (simp add: midnight_frame_def df_empty_def schema_def)
  have rd: "list_all (\<lambda>r. readable_start (cell_at (columns midnight_frame) r ''start'') \<and>
                   summable (cell_at (columns midnight_frame) r ''duration_min''))
        (rows midnight_frame)"
    by (simp add: midnight_frame_def cell_at_def schema_def readable_start_def summable_def
        time_eval)
  have v: "spec_today_total 738886 midnight_frame = 25 + 60"
    by (simp add: spec_today_total_def midnight_frame_def cell_at_def schema_def starts_on_def
        duration_value_def time_eval)
  have s: "sessions \<lparr>sessions = Some midnight_frame, daily_limit = None\<rparr> = Some midnight_frame"
    by simp
  from today_total_counts_started_today [OF s ne, of 738886 240] rd
  have "\<exists>st' a. daily_limit_alert 738886 240
                 \<lparr>sessions = Some midnight_frame, daily_limit = None\<rparr> =
               Inr (st', Some (spec_today_total 738886 midnight_frame), a)"
    by blast
  then show ?thesis unfolding v using ne rd by blast
qed

subsection \<open>Evaluation of the CSV reader and of the handlers\<close>



subsection \<open>C7: a failed read leaves the ledger as it was\<close>

text \<open>
  C7. For every session state, every uploaded file and every reader in the place of
  \<^verbatim>\<open>pd.read_csv\<close>: if the read raises, the import block reports "Import failed" with the
  error and the session state, and so the ledger, is exactly what it was before.
\<close>

theorem import_failure_keeps_ledger:
  assumes "reader f = Inl e"
  shows "import_csv_with reader (Some f) st =
           (st, Some (Error_msg (''Import failed: '' @ error_text e)))"
  using assms by (simp add: import_csv_with_def)

theorem import_failure_keeps_ledger_witness:
  "read_csv ragged_file = Inl ParserError
   \<and> import_csv_with read_csv (Some ragged_file) (example_ledger 1) =
       (example_ledger 1, Some (Error_msg ''Import failed: ParserError''))
   \<and> read_csv [] = Inl EmptyDataError
   \<and> import_csv_with read_csv (Some []) (example_ledger 1) =
       (example_ledger 1, Some (Error_msg ''Import failed: EmptyDataError''))"
proof -
  have r: "read_csv ragged_file = Inl ParserError"
    by (simp add: read_csv_def ragged_file_def table_width_def)
  have e: "read_csv [] = Inl EmptyDataError"
    by (simp add: read_csv_def)
  show ?thesis
    using r e
      import_failure_keeps_ledger [of read_csv ragged_file ParserError "example_ledger 1"]
      import_failure_keeps_ledger [of read_csv "[]" EmptyDataError "example_ledger 1"]
    by (simp add: error_text_def)
qed

subsection \<open>C3: deleting by identifier\<close>








end
